theory Spec2Isabelle
  imports Main "HOL-Library.Word"
begin

section \<open>Primitive values\<close>

text \<open>
  The builder of \<^verbatim>\<open>blockchain_genesis.cpp\<close> works on amounts, fixed-width hashes,
  scripts, transactions and blocks. An amount is a \<^verbatim>\<open>CAmount\<close>, a signed 64-bit
  integer, read with \<open>sint\<close>. A \<^verbatim>\<open>std::string\<close> is a \<open>string\<close> and its
  \<^verbatim>\<open>size()\<close> is \<open>length\<close>.
\<close>

type_synonym byte = "8 word"
type_synonym CAmount = "64 word"

text \<open>
  Every way a call can end without a result. A failed \<^verbatim>\<open>assert\<close> carries the line of
  the source it stands on; the other two come from the helpers the source calls.
\<close>

datatype error = AssertionFailure nat | MalformedHex | WidthMismatch

text \<open>
  Modelled from the spec: the fixed-width hash values \<^verbatim>\<open>uint160\<close> and \<^verbatim>\<open>uint256\<close>
  (\<^verbatim>\<open>uint256.h\<close> is not part of the source). The spec describes them as a "20-byte value"
  and a "32-byte value" and the zero constant as "the all-zero 256-bit value"; a byte
  vector of another length does not give such a value.
\<close>

datatype uint160 = Blob160 (bytes160: "byte list")
datatype uint256 = Blob256 (bytes256: "byte list")

definition uint256_zero :: uint256 where
  "uint256_zero = Blob256 (replicate 32 0)"

definition ToByteVector :: "uint256 \<Rightarrow> byte list" where
  "ToByteVector h = bytes256 h"

text \<open>
  Modelled from the spec: the construction of a \<^verbatim>\<open>uint160\<close> from a byte vector (line 99;
  \<^verbatim>\<open>uint256.h\<close> is not part of the source). The value is "exactly 20 bytes"; a vector of
  another length gives none.
\<close>

definition uint160_of_vector :: "byte list \<Rightarrow> error + uint160" where
  "uint160_of_vector vch = (if length vch = 20 then Inr (Blob160 vch) else Inl WidthMismatch)"

text \<open>
  Modelled from the spec: the construction of a \<^verbatim>\<open>uint256\<close> from a byte vector (line 107;
  \<^verbatim>\<open>uint256.h\<close> is not part of the source). The value is "exactly 32 bytes"; a vector of
  another length gives none.
\<close>

definition uint256_of_vector :: "byte list \<Rightarrow> error + uint256" where
  "uint256_of_vector vch = (if length vch = 32 then Inr (Blob256 vch) else Inl WidthMismatch)"

text \<open>
  Modelled from the spec: hex decoding (\<^verbatim>\<open>ParseHex\<close> of \<^verbatim>\<open>utilstrencodings.h\<close> is
  not part of the source). The spec: "converts a human-readable hex string to raw bytes;
  fails on malformed input". Two hex digits give one byte, the first digit the high
  nibble; a character that is no hex digit, or a digit left alone at the end, is
  malformed input.
\<close>

definition HexDigit :: "char \<Rightarrow> nat option" where
  "HexDigit c =
     (let k = of_char c :: nat in
      if 48 \<le> k \<and> k \<le> 57 then Some (k - 48)
      else if 97 \<le> k \<and> k \<le> 102 then Some (k - 87)
      else if 65 \<le> k \<and> k \<le> 70 then Some (k - 55)
      else None)"

text \<open>
  Modelled from the spec: \<^verbatim>\<open>ParseHex\<close> (\<^verbatim>\<open>utilstrencodings.h\<close> is not part of the
  source), which "fails on malformed input": \<open>None\<close> is the failure.
\<close>

fun ParseHex :: "string \<Rightarrow> byte list option" where
  "ParseHex [] = Some []"
| "ParseHex [c] = None"
| "ParseHex (c # d # rest) =
     (case HexDigit c of
        None \<Rightarrow> None
      | Some hi \<Rightarrow>
          (case HexDigit d of
             None \<Rightarrow> None
           | Some lo \<Rightarrow>
               (case ParseHex rest of
                  None \<Rightarrow> None
                | Some bs \<Rightarrow> Some (of_nat (16 * hi + lo) # bs))))"

section \<open>Fund descriptors\<close>

text \<open>
  \<^verbatim>\<open>P2WPKH\<close> and \<^verbatim>\<open>P2WSH\<close> keep the amount and the hash as the string they were given
  (lines 119 to 129). Each constructor asserts a positive amount first and the length of
  the string second; the string is not decoded.
\<close>

record P2WPKH =
  P2WPKH_amount :: CAmount
  pub_key_hash :: string

record P2WSH =
  P2WSH_amount :: CAmount
  script_hash :: string

record Funds =
  destinations :: "P2WPKH list"

definition P2WPKH_ctor :: "CAmount \<Rightarrow> string \<Rightarrow> error + P2WPKH" where
  "P2WPKH_ctor amount pubKeyHash =
     (if \<not> 0 < sint amount then Inl (AssertionFailure 121)
      else if \<not> length pubKeyHash = 40 then Inl (AssertionFailure 122)
      else Inr \<lparr>P2WPKH_amount = amount, pub_key_hash = pubKeyHash\<rparr>)"

definition P2WSH_ctor :: "CAmount \<Rightarrow> string \<Rightarrow> error + P2WSH" where
  "P2WSH_ctor amount scriptHash =
     (if \<not> 0 < sint amount then Inl (AssertionFailure 127)
      else if \<not> length scriptHash = 64 then Inl (AssertionFailure 128)
      else Inr \<lparr>P2WSH_amount = amount, script_hash = scriptHash\<rparr>)"

definition Funds_ctor :: "P2WPKH list \<Rightarrow> Funds" where
  "Funds_ctor ds = \<lparr>destinations = ds\<rparr>"

section \<open>Scripts, transactions and blocks\<close>

text \<open>
  Modelled from the spec: \<^verbatim>\<open>CScript\<close> and its push operator (\<^verbatim>\<open>script/script.h\<close> is
  not part of the source). The spec describes a script as "the concatenation of pushed
  values": a script is the sequence of the values pushed onto it, and \<^verbatim>\<open><<\<close> with a byte
  vector appends one pushed value.
\<close>

datatype script_item = PushData "byte list"

type_synonym CScript = "script_item list"

definition CScript_empty :: CScript where
  "CScript_empty = []"

text \<open>
  Modelled from the spec: the operator \<^verbatim>\<open><<\<close> of \<^verbatim>\<open>CScript\<close> with a byte vector
  (\<^verbatim>\<open>script/script.h\<close> is not part of the source): one more pushed value at the end.
\<close>

definition push_data :: "CScript \<Rightarrow> byte list \<Rightarrow> CScript" where
  "push_data script b = script @ [PushData b]"

text \<open>
  The destinations the builder creates (lines 100 and 108): a version 0 witness key hash
  around a \<^verbatim>\<open>uint160\<close> and a version 0 witness script hash around a \<^verbatim>\<open>uint256\<close>.
\<close>

datatype CTxDestination = WitnessV0KeyHash uint160 | WitnessV0ScriptHash uint256

text \<open>
  Modelled from the spec: the transaction and block types (\<^verbatim>\<open>primitives/transaction.h\<close>
  and the block header are not part of the source), with the fields the builder reads or
  writes. The spec calls the previous output of a fresh input "the canonical null
  reference (zero hash, maximum index)"; the index is an unsigned 32-bit value. A fresh
  transaction has no input and no output, a fresh block no transaction; the version and
  the type of a fresh transaction are overwritten at lines 25 and 26 before anything
  reads them.
\<close>

definition uint32_max :: "32 word" where
  "uint32_max = - 1"

record COutPoint =
  outpoint_hash :: uint256
  outpoint_n :: "32 word"

record CTxIn =
  prevout :: COutPoint
  scriptSig :: CScript

record CTxOut =
  nValue :: CAmount
  scriptPubKey :: CScript

datatype TxType = REGULAR | COINBASE

record CTransaction =
  tx_version :: nat
  tx_type :: TxType
  vin :: "CTxIn list"
  vout :: "CTxOut list"

record CBlock =
  nVersion :: "32 word"
  nTime :: "32 word"
  nBits :: "32 word"
  hashPrevBlock :: uint256
  hashMerkleRoot :: uint256
  vtx :: "CTransaction list"
  signature :: "byte list"

text \<open>
  Modelled from the spec: the fresh \<^verbatim>\<open>COutPoint\<close> and the fresh \<^verbatim>\<open>CTxIn\<close> that
  \<^verbatim>\<open>vin.resize(1)\<close> creates (\<^verbatim>\<open>primitives/transaction.h\<close> is not part of the source):
  "the canonical null reference (zero hash, maximum index)" and an empty script.
\<close>

definition COutPoint_default :: COutPoint where
  "COutPoint_default = \<lparr>outpoint_hash = uint256_zero, outpoint_n = uint32_max\<rparr>"

definition CTxIn_default :: CTxIn where
  "CTxIn_default = \<lparr>prevout = COutPoint_default, scriptSig = CScript_empty\<rparr>"

text \<open>
  Modelled from the spec: the fresh \<^verbatim>\<open>CMutableTransaction\<close> and the fresh \<^verbatim>\<open>CBlock\<close>
  (their declarations are not part of the source): no input, no output, no transaction.
\<close>

definition CMutableTransaction_default :: CTransaction where
  "CMutableTransaction_default = \<lparr>tx_version = 0, tx_type = REGULAR, vin = [], vout = []\<rparr>"

definition CBlock_default :: CBlock where
  "CBlock_default =
     \<lparr>nVersion = 0, nTime = 0, nBits = 0, hashPrevBlock = uint256_zero,
      hashMerkleRoot = uint256_zero, vtx = [], signature = []\<rparr>"

text \<open>\<^verbatim>\<open>std::vector::resize\<close>: cut to \<open>k\<close> elements, or fill up with fresh ones.\<close>

definition resize :: "nat \<Rightarrow> 'a \<Rightarrow> 'a list \<Rightarrow> 'a list" where
  "resize k fresh xs = take k xs @ replicate (k - length xs) fresh"

text \<open>
  Modelled from the spec: \<^verbatim>\<open>MakeTransactionRef\<close> (\<^verbatim>\<open>primitives/transaction.h\<close> is not
  part of the source). The assembled transaction is the coinbase transaction of the
  block: the shared constant transaction has the fields of the mutable one.
\<close>

definition MakeTransactionRef :: "CTransaction \<Rightarrow> CTransaction" where
  "MakeTransactionRef tx = tx"

section \<open>The collaborators\<close>

text \<open>
  The functions the builder calls and the source does not hold are parameters of the
  model: the hash of a transaction, the merkle root over the transactions of a block, the
  locking script of a destination, the proposing timestamp that the behaviour of a chain
  with parameters \<open>'p\<close> makes of a time, the byte form of a script number, and the compact
  form of a 256-bit target. Nothing is assumed of them here; a theorem that needs one of
  their contracts states it.
\<close>

record 'p collaborators =
  GetHash :: "CTransaction \<Rightarrow> uint256"
  BlockMerkleRoot :: "CTransaction list \<Rightarrow> uint256"
  GetScriptForDestination :: "CTxDestination \<Rightarrow> CScript"
  CalculateProposingTimestamp :: "'p \<Rightarrow> 32 word \<Rightarrow> 32 word"
  CScriptNum_serialize :: "64 word \<Rightarrow> byte list"
  GetCompact :: "uint256 \<Rightarrow> 32 word"

text \<open>
  Modelled from the spec: \<^verbatim>\<open>CBlock::ComputeMerkleTrees\<close> (the block type is not part of
  the source). The spec: "compute \<^verbatim>\<open>hashMerkleRoot\<close> via the external merkle-tree utility
  over \<^verbatim>\<open>vtx\<close>".
\<close>

definition ComputeMerkleTrees :: "'p collaborators \<Rightarrow> CBlock \<Rightarrow> CBlock" where
  "ComputeMerkleTrees env block = block\<lparr>hashMerkleRoot := BlockMerkleRoot env (vtx block)\<rparr>"

section \<open>The genesis block builder\<close>

record GenesisBlockBuilder =
  m_version :: "32 word"
  m_time :: "32 word"
  m_bits :: "32 word"
  m_initial_funds :: "(CAmount \<times> CTxDestination) list"

text \<open>The loop of lines 34 to 39: one output at the back of \<^verbatim>\<open>tx.vout\<close> per fund entry.\<close>

fun emplace_outputs ::
  "'p collaborators \<Rightarrow> (CAmount \<times> CTxDestination) list \<Rightarrow> CTransaction \<Rightarrow> CTransaction"
where
  "emplace_outputs env [] tx = tx"
| "emplace_outputs env (target # rest) tx =
     (let amount = fst target;
          destination = snd target;
          script_pub_key = GetScriptForDestination env destination
      in emplace_outputs env rest
           (tx\<lparr>vout := vout tx @ [\<lparr>nValue = amount, scriptPubKey = script_pub_key\<rparr>]\<rparr>))"

definition BuildCoinbaseTransaction ::
  "'p collaborators \<Rightarrow> GenesisBlockBuilder \<Rightarrow> CTransaction"
where
  "BuildCoinbaseTransaction env this =
     (let tx = CMutableTransaction_default;
          tx = tx\<lparr>tx_version := 2\<rparr>;
          tx = tx\<lparr>tx_type := COINBASE\<rparr>;
          script_sig = push_data (push_data CScript_empty (CScriptNum_serialize env 0))
                                 (ToByteVector uint256_zero);
          tx = tx\<lparr>vin := resize 1 CTxIn_default (vin tx)\<rparr>;
          tx = tx\<lparr>vin := (vin tx)[0 := (vin tx ! 0)\<lparr>scriptSig := script_sig\<rparr>]\<rparr>;
          tx = emplace_outputs env (m_initial_funds this) tx
      in MakeTransactionRef tx)"

text \<open>
  \<^verbatim>\<open>Build\<close> is a constant member function: it returns the block, or the assertion that
  failed, next to the builder as the call leaves it. The behaviour made of the parameters
  at line 46 is used once, for the proposing timestamp of line 51. The six assertions of
  lines 63 to 71 are checked in the order of the source.
\<close>

definition Build ::
  "'p collaborators \<Rightarrow> 'p \<Rightarrow> GenesisBlockBuilder \<Rightarrow> (error + CBlock) \<times> GenesisBlockBuilder"
where
  "Build env parameters this =
     (let genesis_block = CBlock_default;
          genesis_block = genesis_block\<lparr>nVersion := m_version this\<rparr>;
          genesis_block =
            genesis_block\<lparr>nTime := CalculateProposingTimestamp env parameters (m_time this)\<rparr>;
          genesis_block = genesis_block\<lparr>nBits := m_bits this\<rparr>;
          coinbase_transaction = BuildCoinbaseTransaction env this;
          genesis_block = genesis_block\<lparr>vtx := vtx genesis_block @ [coinbase_transaction]\<rparr>;
          genesis_block = genesis_block\<lparr>hashPrevBlock := uint256_zero\<rparr>;
          genesis_block = ComputeMerkleTrees env genesis_block;
          genesis_block = genesis_block\<lparr>signature := []\<rparr>
      in (if \<not> length (vtx genesis_block) = 1 then Inl (AssertionFailure 63)
          else if \<not> length (vin (vtx genesis_block ! 0)) = 1 then Inl (AssertionFailure 64)
          else if \<not> outpoint_hash (prevout (vin (vtx genesis_block ! 0) ! 0)) = uint256_zero
            then Inl (AssertionFailure 65)
          else if \<not> outpoint_n (prevout (vin (vtx genesis_block ! 0) ! 0)) = uint32_max
            then Inl (AssertionFailure 66)
          else if \<not> length (vout (vtx genesis_block ! 0)) = length (m_initial_funds this)
            then Inl (AssertionFailure 67)
          else if \<not> hashMerkleRoot genesis_block = GetHash env (vtx genesis_block ! 0)
            then Inl (AssertionFailure 71)
          else Inr genesis_block,
          this))"

text \<open>The setters of lines 76 to 94 write one field each.\<close>

definition SetVersion :: "GenesisBlockBuilder \<Rightarrow> 32 word \<Rightarrow> GenesisBlockBuilder" where
  "SetVersion this version = this\<lparr>m_version := version\<rparr>"

definition SetTime :: "GenesisBlockBuilder \<Rightarrow> 32 word \<Rightarrow> GenesisBlockBuilder" where
  "SetTime this time = this\<lparr>m_time := time\<rparr>"

definition SetBits :: "GenesisBlockBuilder \<Rightarrow> 32 word \<Rightarrow> GenesisBlockBuilder" where
  "SetBits this bits = this\<lparr>m_bits := bits\<rparr>"

definition SetDifficulty ::
  "'p collaborators \<Rightarrow> GenesisBlockBuilder \<Rightarrow> uint256 \<Rightarrow> GenesisBlockBuilder"
where
  "SetDifficulty env this difficulty = this\<lparr>m_bits := GetCompact env difficulty\<rparr>"

text \<open>
  The two direct appends (lines 96 to 110): decode the string, make the fixed-width hash
  of the bytes, put one entry at the back of the fund list. The amount is not looked at.
\<close>

definition AddFundsForPayToPubKeyHash ::
  "GenesisBlockBuilder \<Rightarrow> CAmount \<Rightarrow> string \<Rightarrow> error + GenesisBlockBuilder"
where
  "AddFundsForPayToPubKeyHash this amount hexKey =
     (case ParseHex hexKey of
        None \<Rightarrow> Inl MalformedHex
      | Some data \<Rightarrow>
          (case uint160_of_vector data of
             Inl e \<Rightarrow> Inl e
           | Inr pubKeyHash \<Rightarrow>
               Inr (this\<lparr>m_initial_funds :=
                      m_initial_funds this @ [(amount, WitnessV0KeyHash pubKeyHash)]\<rparr>)))"

definition AddFundsForPayToScriptHash ::
  "GenesisBlockBuilder \<Rightarrow> CAmount \<Rightarrow> string \<Rightarrow> error + GenesisBlockBuilder"
where
  "AddFundsForPayToScriptHash this amount hexScriptHash =
     (case ParseHex hexScriptHash of
        None \<Rightarrow> Inl MalformedHex
      | Some data \<Rightarrow>
          (case uint256_of_vector data of
             Inl e \<Rightarrow> Inl e
           | Inr scriptHash \<Rightarrow>
               Inr (this\<lparr>m_initial_funds :=
                      m_initial_funds this @ [(amount, WitnessV0ScriptHash scriptHash)]\<rparr>)))"

text \<open>
  \<^verbatim>\<open>Add\<close> (lines 112 to 117) walks the collection from the front and appends each entry
  through \<^verbatim>\<open>AddFundsForPayToPubKeyHash\<close>; the first failure ends the walk.
\<close>

fun Add_loop :: "GenesisBlockBuilder \<Rightarrow> P2WPKH list \<Rightarrow> error + GenesisBlockBuilder" where
  "Add_loop this [] = Inr this"
| "Add_loop this (output # rest) =
     (case AddFundsForPayToPubKeyHash this (P2WPKH_amount output) (pub_key_hash output) of
        Inl e \<Rightarrow> Inl e
      | Inr this' \<Rightarrow> Add_loop this' rest)"

definition Add :: "GenesisBlockBuilder \<Rightarrow> Funds \<Rightarrow> error + GenesisBlockBuilder" where
  "Add this funds = Add_loop this (destinations funds)"

section \<open>Descriptions used to state the properties\<close>

text \<open>
  The spec's description of the bulk append, in its own words: "calling
  \<^verbatim>\<open>AddFundsForPayToPubKeyHash\<close> once per entry in collection order". It is written as a
  fold from the left over the collection, to be compared with the loop of \<^verbatim>\<open>Add\<close>.
\<close>

definition append_each_P2WPKH ::
  "GenesisBlockBuilder \<Rightarrow> P2WPKH list \<Rightarrow> error + GenesisBlockBuilder"
where
  "append_each_P2WPKH this ds =
     foldl (\<lambda>acc d. case acc of
                       Inl e \<Rightarrow> Inl e
                     | Inr b \<Rightarrow> AddFundsForPayToPubKeyHash b (P2WPKH_amount d) (pub_key_hash d))
           (Inr this) ds"

text \<open>
  The fund entry that one descriptor of a collection stands for: its amount and the key
  hash that its string decodes to, when the string decodes to 20 bytes.
\<close>

definition entry_of_P2WPKH :: "P2WPKH \<Rightarrow> (CAmount \<times> CTxDestination) option" where
  "entry_of_P2WPKH d =
     (case ParseHex (pub_key_hash d) of
        None \<Rightarrow> None
      | Some bs \<Rightarrow>
          if length bs = 20 then Some (P2WPKH_amount d, WitnessV0KeyHash (Blob160 bs))
          else None)"




section \<open>A concrete chain\<close>

text \<open>
  One instance of the collaborators and one builder, on which the theorems below are run.
  The instance is a stand-in, not the node's hash or script code: the hash of a
  transaction only counts its outputs, the merkle root of a single transaction is its
  hash, a locking script pushes an empty value and the hash bytes, the proposing
  timestamp is the time it is given, and the script number zero is the empty byte vector.
\<close>

definition example_collaborators :: "unit collaborators" where
  "example_collaborators =
     \<lparr>GetHash = (\<lambda>tx. Blob256 (replicate 32 (of_nat (length (vout tx))))),
      BlockMerkleRoot =
        (\<lambda>txs. case txs of
                  [tx] \<Rightarrow> Blob256 (replicate 32 (of_nat (length (vout tx))))
                | _ \<Rightarrow> uint256_zero),
      GetScriptForDestination =
        (\<lambda>destination. case destination of
                  WitnessV0KeyHash h \<Rightarrow> [PushData [], PushData (bytes160 h)]
                | WitnessV0ScriptHash h \<Rightarrow> [PushData [], PushData (bytes256 h)]),
      CalculateProposingTimestamp = (\<lambda>parameters time. time),
      CScriptNum_serialize = (\<lambda>v. if v = 0 then [] else [ucast v]),
      GetCompact = (\<lambda>target. 0)\<rparr>"

definition example_builder :: GenesisBlockBuilder where
  "example_builder =
     \<lparr>m_version = 2, m_time = 1500000000, m_bits = 0x1d00ffff,
      m_initial_funds =
        [(5000, WitnessV0KeyHash (Blob160 (replicate 20 1))),
         (3000, WitnessV0KeyHash (Blob160 (replicate 20 2)))]\<rparr>"

text \<open>A collection of three descriptors, the first and the last the same.\<close>

definition example_destinations :: "P2WPKH list" where
  "example_destinations =
     [\<lparr>P2WPKH_amount = 5000, pub_key_hash = ''000102030405060708090a0b0c0d0e0f10111213''\<rparr>,
      \<lparr>P2WPKH_amount = 3000, pub_key_hash = ''a0a1a2a3a4a5a6a7a8a9aaabacadaeafb0b1b2b3''\<rparr>,
      \<lparr>P2WPKH_amount = 5000, pub_key_hash = ''000102030405060708090a0b0c0d0e0f10111213''\<rparr>]"

definition example_entries :: "(CAmount \<times> CTxDestination) list" where
  "example_entries =
     [(5000, WitnessV0KeyHash (Blob160
         [0, 1, 2, 3, 4, 5, 6, 7, 8, 9, 10, 11, 12, 13, 14, 15, 16, 17, 18, 19])),
      (3000, WitnessV0KeyHash (Blob160
         [160, 161, 162, 163, 164, 165, 166, 167, 168, 169,
          170, 171, 172, 173, 174, 175, 176, 177, 178, 179])),
      (5000, WitnessV0KeyHash (Blob160
         [0, 1, 2, 3, 4, 5, 6, 7, 8, 9, 10, 11, 12, 13, 14, 15, 16, 17, 18, 19]))]"

section \<open>What the coinbase transaction and the block hold\<close>

lemma emplace_outputs_vout:
  "vout (emplace_outputs env funds tx) =
     vout tx @ map (\<lambda>target. \<lparr>nValue = fst target,
                      scriptPubKey = GetScriptForDestination env (snd target)\<rparr>) funds"
  by (induction funds arbitrary: tx) (simp_all add: Let_def)

lemma emplace_outputs_vin: "vin (emplace_outputs env funds tx) = vin tx"
  by (induction funds arbitrary: tx) (simp_all add: Let_def)

lemma BuildCoinbaseTransaction_vin:
  "vin (BuildCoinbaseTransaction env this) =
     [\<lparr>prevout = COutPoint_default,
       scriptSig = [PushData (CScriptNum_serialize env 0), PushData (replicate 32 0)]\<rparr>]"
  by (simp add: BuildCoinbaseTransaction_def Let_def MakeTransactionRef_def
      emplace_outputs_vin CMutableTransaction_default_def resize_def CTxIn_default_def
      push_data_def CScript_empty_def ToByteVector_def uint256_zero_def)

lemma BuildCoinbaseTransaction_vout:
  "vout (BuildCoinbaseTransaction env this) =
     map (\<lambda>target. \<lparr>nValue = fst target,
            scriptPubKey = GetScriptForDestination env (snd target)\<rparr>) (m_initial_funds this)"
  by (simp add: BuildCoinbaseTransaction_def Let_def MakeTransactionRef_def
      emplace_outputs_vout CMutableTransaction_default_def)

text \<open>
  The first five assertions of \<^verbatim>\<open>Build\<close> always hold; the call succeeds exactly when the
  merkle root over the coinbase transaction alone is the hash of that transaction.
\<close>

lemma Build_snd: "snd (Build env parameters this) = this"
  by (simp add: Build_def Let_def)

lemma Build_fst:
  "fst (Build env parameters this) =
     (if BlockMerkleRoot env [BuildCoinbaseTransaction env this]
           = GetHash env (BuildCoinbaseTransaction env this)
      then Inr \<lparr>nVersion = m_version this,
                nTime = CalculateProposingTimestamp env parameters (m_time this),
                nBits = m_bits this,
                hashPrevBlock = uint256_zero,
                hashMerkleRoot = BlockMerkleRoot env [BuildCoinbaseTransaction env this],
                vtx = [BuildCoinbaseTransaction env this],
                signature = []\<rparr>
      else Inl (AssertionFailure 71))"
  by (simp add: Build_def Let_def CBlock_default_def ComputeMerkleTrees_def
      BuildCoinbaseTransaction_vin BuildCoinbaseTransaction_vout COutPoint_default_def)

lemma example_merkle:
  "BlockMerkleRoot example_collaborators [tx] = GetHash example_collaborators tx"
  by (simp add: example_collaborators_def)

text \<open>
  C1. Every block that \<^verbatim>\<open>Build\<close> returns holds one transaction, and the merkle root of its
  header is the hash of that transaction. Line 71 asserts it, so it holds whatever the
  merkle collaborator computes.
\<close>

theorem Build_merkle_root_is_coinbase_hash:
  "fst (Build env parameters this) = Inr block \<Longrightarrow>
     length (vtx block) = 1 \<and> hashMerkleRoot block = GetHash env (vtx block ! 0)"
  by (auto simp: Build_fst split: if_splits)

theorem Build_merkle_root_is_coinbase_hash_witness:
  "\<exists>block. fst (Build example_collaborators () example_builder) = Inr block \<and>
     length (vtx block) = 1 \<and>
     hashMerkleRoot block = GetHash example_collaborators (vtx block ! 0)"
  using Build_merkle_root_is_coinbase_hash [of example_collaborators "()" example_builder]
  by (simp add: Build_fst example_merkle)

text \<open>
  C2. For every fund list, the empty one too, \<^verbatim>\<open>Build\<close> succeeds, and the coinbase
  transaction of the block has exactly one input, whose previous output has the all-zero
  hash and the greatest index of its 32-bit type. The merkle collaborator is taken to keep
  its contract: the root over one transaction is the hash of that transaction.
\<close>

theorem Build_succeeds_with_null_input:
  assumes "\<forall>tx. BlockMerkleRoot env [tx] = GetHash env tx"
  shows "\<exists>block. fst (Build env parameters this) = Inr block \<and>
           length (vtx block) = 1 \<and>
           length (vin (vtx block ! 0)) = 1 \<and>
           outpoint_hash (prevout (vin (vtx block ! 0) ! 0)) = Blob256 (replicate 32 0) \<and>
           unat (outpoint_n (prevout (vin (vtx block ! 0) ! 0))) = 2 ^ 32 - 1"
  using assms
  by (simp add: Build_fst BuildCoinbaseTransaction_vin COutPoint_default_def
      uint256_zero_def uint32_max_def unsigned_minus_1_eq_mask mask_eq_exp_minus_1)

theorem Build_succeeds_with_null_input_witness:
  "(\<forall>tx. BlockMerkleRoot example_collaborators [tx] = GetHash example_collaborators tx) \<and>
   (\<exists>block. fst (Build example_collaborators () (example_builder\<lparr>m_initial_funds := []\<rparr>))
               = Inr block \<and>
           length (vtx block) = 1 \<and>
           length (vin (vtx block ! 0)) = 1 \<and>
           outpoint_hash (prevout (vin (vtx block ! 0) ! 0)) = Blob256 (replicate 32 0) \<and>
           unat (outpoint_n (prevout (vin (vtx block ! 0) ! 0))) = 2 ^ 32 - 1)"
  using Build_succeeds_with_null_input
          [of example_collaborators "()" "example_builder\<lparr>m_initial_funds := []\<rparr>"]
        example_merkle
  by simp

text \<open>
  C3. \<^verbatim>\<open>Build\<close> produces a block whose coinbase transaction has one output per fund entry,
  in the order of the fund list, each with the amount of its entry and the locking script
  of the destination of its entry. It holds for every fund list, so for every non-empty
  one; the merkle collaborator is taken to keep its contract, as in C2.
\<close>

theorem Build_outputs_follow_fund_list:
  assumes "\<forall>tx. BlockMerkleRoot env [tx] = GetHash env tx"
  shows "\<exists>block. fst (Build env parameters this) = Inr block \<and>
           length (vtx block) = 1 \<and>
           vout (vtx block ! 0) =
             map (\<lambda>(amount, destination).
                    \<lparr>nValue = amount, scriptPubKey = GetScriptForDestination env destination\<rparr>)
                 (m_initial_funds this)"
  using assms
  by (simp add: Build_fst BuildCoinbaseTransaction_vout case_prod_unfold)

theorem Build_outputs_follow_fund_list_witness:
  "(\<forall>tx. BlockMerkleRoot example_collaborators [tx] = GetHash example_collaborators tx) \<and>
   (\<exists>block. fst (Build example_collaborators () example_builder) = Inr block \<and>
           length (vtx block) = 1 \<and>
           vout (vtx block ! 0) =
             [\<lparr>nValue = 5000, scriptPubKey = [PushData [], PushData (replicate 20 1)]\<rparr>,
              \<lparr>nValue = 3000, scriptPubKey = [PushData [], PushData (replicate 20 2)]\<rparr>])"
  using Build_outputs_follow_fund_list [of example_collaborators "()" example_builder]
        example_merkle
  by (simp add: example_builder_def example_collaborators_def)

text \<open>
  C8. The coinbase transaction has a single input, and its unlocking script is two pushed
  values one after the other: first the script number zero, the height, then the 32 zero
  bytes of the all-zero 256-bit value. The same script is in the block that \<^verbatim>\<open>Build\<close>
  returns.
\<close>

theorem coinbase_script_sig:
  "vin (BuildCoinbaseTransaction env this) =
     [\<lparr>prevout = COutPoint_default,
       scriptSig = push_data (push_data CScript_empty (CScriptNum_serialize env 0))
                             (replicate 32 0)\<rparr>] \<and>
   push_data (push_data CScript_empty (CScriptNum_serialize env 0)) (replicate 32 0) =
     [PushData (CScriptNum_serialize env 0), PushData (replicate 32 0)] \<and>
   (\<forall>block. fst (Build env parameters this) = Inr block \<longrightarrow>
      map scriptSig (vin (vtx block ! 0)) =
        [[PushData (CScriptNum_serialize env 0), PushData (replicate 32 0)]])"
  by (auto simp: Build_fst BuildCoinbaseTransaction_vin push_data_def CScript_empty_def
      split: if_splits)

theorem coinbase_script_sig_witness:
  "\<exists>block. fst (Build example_collaborators () example_builder) = Inr block \<and>
      map scriptSig (vin (vtx block ! 0)) = [[PushData [], PushData (replicate 32 0)]]"
  using coinbase_script_sig [of example_collaborators example_builder "()"]
  by (simp add: Build_fst example_merkle) (simp add: example_collaborators_def)

section \<open>Build and the builder\<close>






text \<open>
  C10. \<^verbatim>\<open>Build\<close> does not change the builder: the version, the time, the bits and the fund
  list after the call are those before it.
\<close>

theorem Build_leaves_builder:
  "snd (Build env parameters this) = this \<and>
   m_version (snd (Build env parameters this)) = m_version this \<and>
   m_time (snd (Build env parameters this)) = m_time this \<and>
   m_bits (snd (Build env parameters this)) = m_bits this \<and>
   m_initial_funds (snd (Build env parameters this)) = m_initial_funds this"
  by (simp add: Build_snd)

section \<open>Fund descriptor construction\<close>

text \<open>
  C4. For every amount that is at most zero and every hash string, valid or not, the
  construction of a P2WPKH descriptor and of a P2WSH descriptor fails.
\<close>

theorem descriptor_rejects_nonpositive_amount:
  "sint amount \<le> 0 \<Longrightarrow> isl (P2WPKH_ctor amount h) \<and> isl (P2WSH_ctor amount h)"
  by (simp add: P2WPKH_ctor_def P2WSH_ctor_def)

theorem descriptor_rejects_nonpositive_amount_witness:
  "sint (- 5 :: CAmount) \<le> 0
   \<and> isl (P2WPKH_ctor (- 5) ''00112233445566778899aabbccddeeff00112233'')
   \<and> isl (P2WSH_ctor (- 5) ''00112233445566778899aabbccddeeff00112233'')"
  using descriptor_rejects_nonpositive_amount
          [of "- 5" "''00112233445566778899aabbccddeeff00112233''"]
  by simp

lemma ParseHex_length: "ParseHex s = Some bs \<Longrightarrow> length s = 2 * length bs"
  by (induction s arbitrary: bs rule: ParseHex.induct) (auto split: option.splits)

text \<open>
  C5, as stated, fails: a string of 40 characters that are no hex digits does not decode,
  and the P2WPKH constructor accepts it with a positive amount; likewise 64 such
  characters and the P2WSH constructor.
\<close>

theorem descriptor_accepts_non_hex_counterexample:
  "ParseHex ''zzzzzzzzzzzzzzzzzzzzzzzzzzzzzzzzzzzzzzzz'' = None \<and>
   P2WPKH_ctor 1 ''zzzzzzzzzzzzzzzzzzzzzzzzzzzzzzzzzzzzzzzz'' =
     Inr \<lparr>P2WPKH_amount = 1, pub_key_hash = ''zzzzzzzzzzzzzzzzzzzzzzzzzzzzzzzzzzzzzzzz''\<rparr> \<and>
   ParseHex ''zzzzzzzzzzzzzzzzzzzzzzzzzzzzzzzzzzzzzzzzzzzzzzzzzzzzzzzzzzzzzzzz'' = None \<and>
   P2WSH_ctor 1 ''zzzzzzzzzzzzzzzzzzzzzzzzzzzzzzzzzzzzzzzzzzzzzzzzzzzzzzzzzzzzzzzz'' =
     Inr \<lparr>P2WSH_amount = 1,
          script_hash = ''zzzzzzzzzzzzzzzzzzzzzzzzzzzzzzzzzzzzzzzzzzzzzzzzzzzzzzzzzzzzzzzz''\<rparr>"
  by (simp add: P2WPKH_ctor_def P2WSH_ctor_def HexDigit_def)

text \<open>
  C5, amended. The construction of a P2WPKH descriptor fails for every string that is not
  40 characters long, and that of a P2WSH descriptor for every string that is not 64
  characters long; so it fails for every string that decodes to a number of bytes other
  than 20, and 32. The string is not decoded at construction: with a positive amount
  every string of 40 characters, hex or not, gives the P2WPKH descriptor of that amount
  and that string, and every string of 64 characters the P2WSH descriptor.
\<close>

theorem descriptor_checks_length_only:
  "(length s \<noteq> 40 \<longrightarrow> isl (P2WPKH_ctor amount s)) \<and>
   (length s \<noteq> 64 \<longrightarrow> isl (P2WSH_ctor amount s)) \<and>
   (\<forall>bs. ParseHex s = Some bs \<longrightarrow>
      (length bs \<noteq> 20 \<longrightarrow> isl (P2WPKH_ctor amount s)) \<and>
      (length bs \<noteq> 32 \<longrightarrow> isl (P2WSH_ctor amount s))) \<and>
   (0 < sint amount \<and> length s = 40 \<longrightarrow>
      P2WPKH_ctor amount s = Inr \<lparr>P2WPKH_amount = amount, pub_key_hash = s\<rparr>) \<and>
   (0 < sint amount \<and> length s = 64 \<longrightarrow>
      P2WSH_ctor amount s = Inr \<lparr>P2WSH_amount = amount, script_hash = s\<rparr>)"
  by (auto simp: P2WPKH_ctor_def P2WSH_ctor_def dest: ParseHex_length)

theorem descriptor_checks_length_only_witness:
  "length ''c0ffee'' \<noteq> 40 \<and> length ''c0ffee'' \<noteq> 64 \<and>
   ParseHex ''c0ffee'' = Some [0xc0, 0xff, 0xee] \<and>
   isl (P2WPKH_ctor 5000 ''c0ffee'') \<and> isl (P2WSH_ctor 5000 ''c0ffee'') \<and>
   0 < sint (5000 :: CAmount) \<and>
   length ''00112233445566778899aabbccddeeff00112233'' = 40 \<and>
   P2WPKH_ctor 5000 ''00112233445566778899aabbccddeeff00112233'' =
     Inr \<lparr>P2WPKH_amount = 5000,
          pub_key_hash = ''00112233445566778899aabbccddeeff00112233''\<rparr> \<and>
   length ''not hex, and yet sixty-four characters long, as the source asks.'' = 64 \<and>
   ParseHex ''not hex, and yet sixty-four characters long, as the source asks.'' = None \<and>
   P2WSH_ctor 5000 ''not hex, and yet sixty-four characters long, as the source asks.'' =
     Inr \<lparr>P2WSH_amount = 5000,
          script_hash = ''not hex, and yet sixty-four characters long, as the source asks.''\<rparr>"
  using descriptor_checks_length_only [of "''c0ffee''" 5000]
        descriptor_checks_length_only [of "''00112233445566778899aabbccddeeff00112233''" 5000]
        descriptor_checks_length_only
          [of "''not hex, and yet sixty-four characters long, as the source asks.''" 5000]
  by (simp add: HexDigit_def)

section \<open>Appending funds\<close>

lemma AddFundsForPayToPubKeyHash_eq:
  "AddFundsForPayToPubKeyHash this amount s =
     (case ParseHex s of
        None \<Rightarrow> Inl MalformedHex
      | Some data \<Rightarrow>
          if length data = 20
          then Inr (this\<lparr>m_initial_funds :=
                      m_initial_funds this @ [(amount, WitnessV0KeyHash (Blob160 data))]\<rparr>)
          else Inl WidthMismatch)"
  by (simp add: AddFundsForPayToPubKeyHash_def uint160_of_vector_def split: option.splits)

lemma AddFundsForPayToScriptHash_eq:
  "AddFundsForPayToScriptHash this amount s =
     (case ParseHex s of
        None \<Rightarrow> Inl MalformedHex
      | Some data \<Rightarrow>
          if length data = 32
          then Inr (this\<lparr>m_initial_funds :=
                      m_initial_funds this @ [(amount, WitnessV0ScriptHash (Blob256 data))]\<rparr>)
          else Inl WidthMismatch)"
  by (simp add: AddFundsForPayToScriptHash_def uint256_of_vector_def split: option.splits)

text \<open>
  C6, as stated, fails: with the string \<open>zz\<close>, which is no hex, neither direct append
  succeeds.
\<close>

theorem direct_append_rejects_bad_string_counterexample:
  "AddFundsForPayToPubKeyHash example_builder 1 ''zz'' = Inl MalformedHex \<and>
   AddFundsForPayToScriptHash example_builder 1 ''zz'' = Inl MalformedHex"
  by (simp add: AddFundsForPayToPubKeyHash_eq AddFundsForPayToScriptHash_eq HexDigit_def)

text \<open>
  C6, amended. The direct appends do not look at the amount. For every amount, at most
  zero or not, and every string that decodes to exactly 20 bytes, for a key hash, or
  exactly 32 bytes, for a script hash, the call succeeds and puts exactly one entry with
  that amount at the back of the fund list; for every other string the call fails.
\<close>

theorem direct_append_checks_only_hash_width:
  "(\<forall>data. ParseHex s = Some data \<longrightarrow> length data = 20 \<longrightarrow>
      AddFundsForPayToPubKeyHash this amount s =
        Inr (this\<lparr>m_initial_funds :=
               m_initial_funds this @ [(amount, WitnessV0KeyHash (Blob160 data))]\<rparr>)) \<and>
   (\<forall>data. ParseHex s = Some data \<longrightarrow> length data = 32 \<longrightarrow>
      AddFundsForPayToScriptHash this amount s =
        Inr (this\<lparr>m_initial_funds :=
               m_initial_funds this @ [(amount, WitnessV0ScriptHash (Blob256 data))]\<rparr>)) \<and>
   (isl (AddFundsForPayToPubKeyHash this amount s) \<longleftrightarrow>
      \<not> (\<exists>data. ParseHex s = Some data \<and> length data = 20)) \<and>
   (isl (AddFundsForPayToScriptHash this amount s) \<longleftrightarrow>
      \<not> (\<exists>data. ParseHex s = Some data \<and> length data = 32))"
  by (auto simp: AddFundsForPayToPubKeyHash_eq AddFundsForPayToScriptHash_eq
      split: option.splits)

theorem direct_append_checks_only_hash_width_witness:
  "ParseHex ''000102030405060708090a0b0c0d0e0f10111213'' =
     Some [0, 1, 2, 3, 4, 5, 6, 7, 8, 9, 10, 11, 12, 13, 14, 15, 16, 17, 18, 19] \<and>
   sint (- 5 :: CAmount) \<le> 0 \<and>
   AddFundsForPayToPubKeyHash (example_builder\<lparr>m_initial_funds := []\<rparr>) (- 5)
       ''000102030405060708090a0b0c0d0e0f10111213'' =
     Inr (example_builder\<lparr>m_initial_funds :=
            [(- 5, WitnessV0KeyHash (Blob160
               [0, 1, 2, 3, 4, 5, 6, 7, 8, 9, 10, 11, 12, 13, 14, 15, 16, 17, 18, 19]))]\<rparr>) \<and>
   ParseHex ''f0e1d2c3b4a5968778695a4b3c2d1e0ff0e1d2c3b4a5968778695a4b3c2d1e0f'' =
     Some [240, 225, 210, 195, 180, 165, 150, 135, 120, 105, 90, 75, 60, 45, 30, 15,
           240, 225, 210, 195, 180, 165, 150, 135, 120, 105, 90, 75, 60, 45, 30, 15] \<and>
   AddFundsForPayToScriptHash (example_builder\<lparr>m_initial_funds := []\<rparr>) 0
       ''f0e1d2c3b4a5968778695a4b3c2d1e0ff0e1d2c3b4a5968778695a4b3c2d1e0f'' =
     Inr (example_builder\<lparr>m_initial_funds :=
            [(0, WitnessV0ScriptHash (Blob256
               [240, 225, 210, 195, 180, 165, 150, 135, 120, 105, 90, 75, 60, 45, 30, 15,
                240, 225, 210, 195, 180, 165, 150, 135, 120, 105, 90, 75, 60, 45, 30, 15]))]\<rparr>)"
  using direct_append_checks_only_hash_width
          [of "''000102030405060708090a0b0c0d0e0f10111213''"
              "example_builder\<lparr>m_initial_funds := []\<rparr>" "- 5"]
        direct_append_checks_only_hash_width
          [of "''f0e1d2c3b4a5968778695a4b3c2d1e0ff0e1d2c3b4a5968778695a4b3c2d1e0f''"
              "example_builder\<lparr>m_initial_funds := []\<rparr>" 0]
  by (simp add: HexDigit_def)

lemma foldl_append_Inl:
  "foldl (\<lambda>acc d. case acc of
                     Inl e \<Rightarrow> Inl e
                   | Inr b \<Rightarrow> AddFundsForPayToPubKeyHash b (P2WPKH_amount d) (pub_key_hash d))
         (Inl e) ds = Inl e"
  by (induction ds) simp_all

lemma Add_loop_append_each: "Add_loop this ds = append_each_P2WPKH this ds"
proof (induction ds arbitrary: this)
  case Nil
  then show ?case by (simp add: append_each_P2WPKH_def)
next
  case (Cons d ds)
  show ?case
  proof (cases "AddFundsForPayToPubKeyHash this (P2WPKH_amount d) (pub_key_hash d)")
    case (Inl e)
    then show ?thesis by (simp add: append_each_P2WPKH_def foldl_append_Inl)
  next
    case (Inr b)
    with Cons.IH [of b] show ?thesis by (simp add: append_each_P2WPKH_def)
  qed
qed

lemma Add_loop_entries:
  "Add_loop this ds = Inr this' \<Longrightarrow>
     \<exists>es. map entry_of_P2WPKH ds = map Some es \<and>
          this' = this\<lparr>m_initial_funds := m_initial_funds this @ es\<rparr>"
proof (induction ds arbitrary: this)
  case Nil
  then show ?case by simp
next
  case (Cons d ds)
  from Cons.prems obtain b where
    step: "AddFundsForPayToPubKeyHash this (P2WPKH_amount d) (pub_key_hash d) = Inr b"
    and rest: "Add_loop b ds = Inr this'"
    by (auto split: sum.splits)
  from step obtain data where
    data: "ParseHex (pub_key_hash d) = Some data" "length data = 20"
    and b: "b = this\<lparr>m_initial_funds :=
                m_initial_funds this @ [(P2WPKH_amount d, WitnessV0KeyHash (Blob160 data))]\<rparr>"
    by (auto simp: AddFundsForPayToPubKeyHash_eq split: option.splits if_splits)
  from Cons.IH [OF rest] obtain es where
    es: "map entry_of_P2WPKH ds = map Some es"
    and this': "this' = b\<lparr>m_initial_funds := m_initial_funds b @ es\<rparr>"
    by blast
  have "map entry_of_P2WPKH (d # ds) =
          map Some ((P2WPKH_amount d, WitnessV0KeyHash (Blob160 data)) # es)"
    using data es by (simp add: entry_of_P2WPKH_def)
  moreover have "this' = this\<lparr>m_initial_funds := m_initial_funds this @
                   ((P2WPKH_amount d, WitnessV0KeyHash (Blob160 data)) # es)\<rparr>"
    using this' b by simp
  ultimately show ?case by blast
qed

lemma ParseHex_example_1:
  "ParseHex ''000102030405060708090a0b0c0d0e0f10111213'' =
     Some [0, 1, 2, 3, 4, 5, 6, 7, 8, 9, 10, 11, 12, 13, 14, 15, 16, 17, 18, 19]"
  by (simp add: HexDigit_def)

lemma ParseHex_example_2:
  "ParseHex ''a0a1a2a3a4a5a6a7a8a9aaabacadaeafb0b1b2b3'' =
     Some [160, 161, 162, 163, 164, 165, 166, 167, 168, 169,
           170, 171, 172, 173, 174, 175, 176, 177, 178, 179]"
  by (simp add: HexDigit_def)

lemma Add_example:
  "Add (example_builder\<lparr>m_initial_funds := []\<rparr>) (Funds_ctor example_destinations) =
     Inr (example_builder\<lparr>m_initial_funds := example_entries\<rparr>)"
  by (simp add: Add_def Funds_ctor_def example_destinations_def example_entries_def
      AddFundsForPayToPubKeyHash_eq ParseHex_example_1 ParseHex_example_2
      del: ParseHex.simps)

text \<open>
  C9. The bulk append of a collection of P2WPKH entries ends as the calls of
  \<^verbatim>\<open>AddFundsForPayToPubKeyHash\<close>, one per entry in the order of the collection, end: with
  the same builder, or with the same failure. When it succeeds the new builder is the old
  one with one entry per descriptor put at the back of the fund list, in the order of
  the collection, nothing moved and nothing left out, and no other field changed.
\<close>

theorem Add_is_repeated_append:
  "Add this (Funds_ctor ds) = append_each_P2WPKH this ds \<and>
   (\<forall>this'. Add this (Funds_ctor ds) = Inr this' \<longrightarrow>
      (\<exists>es. map entry_of_P2WPKH ds = map Some es \<and>
            this' = this\<lparr>m_initial_funds := m_initial_funds this @ es\<rparr>))"
  by (simp add: Add_def Funds_ctor_def Add_loop_append_each [symmetric] Add_loop_entries)

theorem Add_is_repeated_append_witness:
  "Add (example_builder\<lparr>m_initial_funds := []\<rparr>) (Funds_ctor example_destinations) =
     Inr (example_builder\<lparr>m_initial_funds := example_entries\<rparr>) \<and>
   append_each_P2WPKH (example_builder\<lparr>m_initial_funds := []\<rparr>) example_destinations =
     Inr (example_builder\<lparr>m_initial_funds := example_entries\<rparr>) \<and>
   (\<exists>es. map entry_of_P2WPKH example_destinations = map Some es \<and>
         example_builder\<lparr>m_initial_funds := example_entries\<rparr> =
           example_builder\<lparr>m_initial_funds := [] @ es\<rparr>)"
  using Add_is_repeated_append
          [of "example_builder\<lparr>m_initial_funds := []\<rparr>" example_destinations]
        Add_example
  by simp

end
